theory Spec2Isabelle
  imports Main "HOL-Library.Multiset"
begin

section \<open>The CUDA device manager of ArrayFire (src/backend/cuda/platform.cpp)\<close>

text \<open>
  The file enumerates the CUDA devices, scores them, sorts them and keeps the active one.
  C++ \<open>int\<close> values are modelled as \<open>int\<close>, with the 32-bit two's-complement wrap-around
  written out (\<open>int32\<close>) where the source does arithmetic on them; \<open>size_t\<close> values are
  \<open>nat\<close>. A call of the CUDA runtime is a field of the record \<open>cuda_runtime\<close>; what the
  source does on a failure (\<open>exit\<close> in the macro \<open>CUDA\<close>, a thrown exception, an
  out-of-range element access) is a value of the type \<open>failure\<close>. \<open>std::sort\<close> is
  followed on ranges of at most 16 elements and, on longer ranges, up to the first scan of
  its partition; where it is not followed, the result of a function is \<open>None\<close>.
\<close>

subsection \<open>Data\<close>

definition int32 :: "int \<Rightarrow> int" where
  "int32 x = (x + 2147483648) mod 4294967296 - 2147483648"

text \<open>The fields of the runtime's \<open>cudaDeviceProp\<close> that the file reads.\<close>

record cudaDeviceProp =
  name :: string
  totalGlobalMem :: nat
  major :: int
  minor :: int
  multiProcessorCount :: int
  clockRate :: int

text \<open>
  Modelled from the spec: \<open>cudaDevice_t\<close> is declared in platform.hpp, not in
  platform.cpp. The spec's descriptor has a capability, a derived integer score and
  the native index; the field names are the ones platform.cpp uses (\<open>dev_prop\<close> stands for
  \<open>prop\<close>, which Isabelle reserves). \<open>flops\<close> holds the value
  of the \<open>int\<close> product that the constructor assigns to it.
\<close>

record cudaDevice_t =
  dev_prop :: cudaDeviceProp
  flops :: int
  nativeId :: int

text \<open>The enumerators of \<open>sort_mode\<close> as the \<open>switch\<close> of \<open>sortDevices\<close> names them.\<close>

datatype sort_mode = sort_flops | sort_memory | sort_compute | sort_none

record DeviceManager =
  cuDevices :: "cudaDevice_t list"
  activeDev :: int
  nDevices :: int

datatype cudaError_t = cudaSuccess | cudaErrorInvalidDevice | cudaErrorOther

text \<open>
  The three runtime calls of the file. \<open>cudaGetDeviceCount\<close> gives its status and the count
  it wrote; the status of \<open>cudaGetDeviceProperties\<close> is dropped by the source.
\<close>

record cuda_runtime =
  cudaGetDeviceCount :: "cudaError_t \<times> int"
  cudaGetDeviceProperties :: "int \<Rightarrow> cudaDeviceProp"
  cudaSetDevice :: "int \<Rightarrow> cudaError_t"

datatype failure =
    CudaExit
  | RuntimeError string
  | LengthError
  | OutOfRange

subsection \<open>compute2cores\<close>

definition gpus :: "(int \<times> int) list" where
  "gpus = [(0x10, 8), (0x11, 8), (0x12, 8), (0x13, 8), (0x20, 32), (0x21, 48),
           (0x30, 192), (0x35, 192), (0x50, 128), (-1, -1)]"

text \<open>The loop stops at the entry whose \<open>compute\<close> is -1, before it compares the key.\<close>

fun compute2cores_loop :: "(int \<times> int) list \<Rightarrow> int \<Rightarrow> int" where
  "compute2cores_loop [] key = 0"
| "compute2cores_loop ((compute, cores) # rest) key =
     (if compute = -1 then 0
      else if compute = key then cores
      else compute2cores_loop rest key)"

definition compute2cores :: "int \<Rightarrow> int \<Rightarrow> int" where
  "compute2cores mj mn = compute2cores_loop gpus (int32 (int32 (mj * 16) + mn))"

subsection \<open>The comparison functions\<close>

text \<open>
  The body of the macro \<open>COMPARE\<close> is one \<open>return\<close>. A statement of a comparison function
  is modelled by the value it returns, \<open>None\<close> when control goes on to the next statement;
  \<open>first_return\<close> runs the statements in order, with the value of the closing \<open>return 0\<close>.
\<close>

definition COMPARE :: "'a \<Rightarrow> 'a \<Rightarrow> ('a \<Rightarrow> 'b::linorder) \<Rightarrow> bool option" where
  "COMPARE a b f = Some (f a \<ge> f b)"

fun first_return :: "bool option list \<Rightarrow> bool \<Rightarrow> bool" where
  "first_return [] d = d"
| "first_return (Some b # rest) d = b"
| "first_return (None # rest) d = first_return rest d"

definition card_compare_compute :: "cudaDevice_t \<Rightarrow> cudaDevice_t \<Rightarrow> bool" where
  "card_compare_compute l r = first_return
     [COMPARE l r (\<lambda>d. major (dev_prop d)),
      COMPARE l r (\<lambda>d. minor (dev_prop d)),
      COMPARE l r flops,
      COMPARE l r (\<lambda>d. totalGlobalMem (dev_prop d)),
      COMPARE l r nativeId] False"

definition card_compare_flops :: "cudaDevice_t \<Rightarrow> cudaDevice_t \<Rightarrow> bool" where
  "card_compare_flops l r = first_return
     [COMPARE l r flops,
      COMPARE l r (\<lambda>d. totalGlobalMem (dev_prop d)),
      COMPARE l r (\<lambda>d. major (dev_prop d)),
      COMPARE l r (\<lambda>d. minor (dev_prop d)),
      COMPARE l r nativeId] False"

definition card_compare_mem :: "cudaDevice_t \<Rightarrow> cudaDevice_t \<Rightarrow> bool" where
  "card_compare_mem l r = first_return
     [COMPARE l r (\<lambda>d. totalGlobalMem (dev_prop d)),
      COMPARE l r flops,
      COMPARE l r (\<lambda>d. major (dev_prop d)),
      COMPARE l r (\<lambda>d. minor (dev_prop d)),
      COMPARE l r nativeId] False"

definition card_compare_num :: "cudaDevice_t \<Rightarrow> cudaDevice_t \<Rightarrow> bool" where
  "card_compare_num l r = first_return [COMPARE l r nativeId] False"

subsection \<open>std::sort\<close>

text \<open>
  \<open>std::sort\<close> belongs to the C++ library, not to this repository; what follows is the
  code of GNU libstdc++. \<open>insertion_sort\<close> is its \<open>__insertion_sort\<close>: the element at
  \<open>i\<close> goes to the front when \<open>comp(*i, *first)\<close>, and otherwise moves left past every
  element \<open>e\<close> with \<open>comp(val, e)\<close>. \<open>linear_insert\<close> works on the reversed prefix, whose
  head is the element next to \<open>i\<close>.
\<close>

fun linear_insert :: "('a \<Rightarrow> 'a \<Rightarrow> bool) \<Rightarrow> 'a \<Rightarrow> 'a list \<Rightarrow> 'a list" where
  "linear_insert cmp val [] = [val]"
| "linear_insert cmp val (nxt # rest) =
     (if cmp val nxt then nxt # linear_insert cmp val rest else val # nxt # rest)"

fun insertion_step :: "('a \<Rightarrow> 'a \<Rightarrow> bool) \<Rightarrow> 'a list \<Rightarrow> 'a \<Rightarrow> 'a list" where
  "insertion_step cmp [] val = [val]"
| "insertion_step cmp (first # sorted_part) val =
     (if cmp val first then val # first # sorted_part
      else rev (linear_insert cmp val (rev (first # sorted_part))))"

fun insertion_loop :: "('a \<Rightarrow> 'a \<Rightarrow> bool) \<Rightarrow> 'a list \<Rightarrow> 'a list \<Rightarrow> 'a list" where
  "insertion_loop cmp sorted_part [] = sorted_part"
| "insertion_loop cmp sorted_part (val # rest) =
     insertion_loop cmp (insertion_step cmp sorted_part val) rest"

definition insertion_sort :: "('a \<Rightarrow> 'a \<Rightarrow> bool) \<Rightarrow> 'a list \<Rightarrow> 'a list" where
  "insertion_sort cmp xs = (case xs of [] \<Rightarrow> [] | x # rest \<Rightarrow> insertion_loop cmp [x] rest)"

text \<open>
  A range of more than 16 elements first goes through \<open>__introsort_loop\<close>, whose first
  step is \<open>__unguarded_partition_pivot\<close>: \<open>__move_median_to_first\<close> swaps the median of
  the elements at \<open>first + 1\<close>, at the middle and at \<open>last - 1\<close> into \<open>first\<close> as the pivot,
  and \<open>__unguarded_partition\<close> then scans upwards from \<open>first + 1\<close> while
  \<open>comp(*it, pivot)\<close> holds, without a test against \<open>last\<close>.
\<close>

definition iter_swap :: "nat \<Rightarrow> nat \<Rightarrow> 'a list \<Rightarrow> 'a list" where
  "iter_swap i j xs = xs[i := xs ! j, j := xs ! i]"

definition move_median_to_first :: "('a \<Rightarrow> 'a \<Rightarrow> bool) \<Rightarrow> 'a list \<Rightarrow> 'a list" where
  "move_median_to_first cmp xs =
     (let a = 1; b = length xs div 2; c = length xs - 1 in
      if cmp (xs ! a) (xs ! b) then
        (if cmp (xs ! b) (xs ! c) then iter_swap 0 b xs
         else if cmp (xs ! a) (xs ! c) then iter_swap 0 c xs
         else iter_swap 0 a xs)
      else if cmp (xs ! a) (xs ! c) then iter_swap 0 a xs
      else if cmp (xs ! b) (xs ! c) then iter_swap 0 c xs
      else iter_swap 0 b xs)"

text \<open>
  \<open>std_sort\<close> covers \<open>std::sort\<close> as far as this development follows it. A range of at
  most 16 elements skips the introsort loop and is sorted by \<open>__insertion_sort\<close>. On a
  longer range, when every element after the pivot satisfies \<open>comp(*it, pivot)\<close> the first
  scan of the partition runs past the end of the vector, an access out of range. When the
  scan stops inside the range, the rest of the introsort is not followed here: the result
  is \<open>None\<close>, which says nothing about what the program does.
\<close>

definition std_sort :: "('a \<Rightarrow> 'a \<Rightarrow> bool) \<Rightarrow> 'a list \<Rightarrow> (failure + 'a list) option" where
  "std_sort cmp xs =
     (if length xs \<le> 16 then Some (Inr (insertion_sort cmp xs))
      else (let ys = move_median_to_first cmp xs; pivot = ys ! 0 in
            if list_all (\<lambda>e. cmp e pivot) (drop 1 ys) then Some (Inl OutOfRange)
            else None))"

subsection \<open>sortDevices\<close>

text \<open>\<open>sort_in_place\<close> is the call \<open>sort(cuDevices.begin(), cuDevices.end(), comp)\<close>.\<close>

definition sort_in_place ::
  "DeviceManager \<Rightarrow> (cudaDevice_t \<Rightarrow> cudaDevice_t \<Rightarrow> bool) \<Rightarrow> (failure + DeviceManager) option" where
  "sort_in_place m cmp =
     (case std_sort cmp (cuDevices m) of
        None \<Rightarrow> None
      | Some (Inl e) \<Rightarrow> Some (Inl e)
      | Some (Inr ds) \<Rightarrow> Some (Inr (m\<lparr>cuDevices := ds\<rparr>)))"

definition sortDevices :: "DeviceManager \<Rightarrow> sort_mode \<Rightarrow> (failure + DeviceManager) option" where
  "sortDevices m mode =
     (case mode of
        sort_memory \<Rightarrow> sort_in_place m card_compare_mem
      | sort_flops \<Rightarrow> sort_in_place m card_compare_flops
      | sort_compute \<Rightarrow> sort_in_place m card_compare_compute
      | sort_none \<Rightarrow> sort_in_place m card_compare_num)"

subsection \<open>Accessors\<close>

text \<open>
  \<open>vector_at\<close> is \<open>operator[]\<close> of \<open>std::vector\<close>: the \<open>int\<close> index is converted to the
  unsigned \<open>size_type\<close>, so a negative index is as far out of range as a large one, and an
  access out of range has no defined result.
\<close>

definition vector_at :: "'a list \<Rightarrow> int \<Rightarrow> failure + 'a" where
  "vector_at xs i = (if 0 \<le> i \<and> i < int (length xs) then Inr (xs ! nat i) else Inl OutOfRange)"

definition getDeviceCount :: "DeviceManager \<Rightarrow> int" where
  "getDeviceCount m = nDevices m"

definition getActiveDeviceId :: "DeviceManager \<Rightarrow> int" where
  "getActiveDeviceId m = activeDev m"

definition getDeviceNativeId :: "DeviceManager \<Rightarrow> int \<Rightarrow> failure + int" where
  "getDeviceNativeId m device =
     (if device < int (length (cuDevices m))
      then (case vector_at (cuDevices m) device of
              Inl e \<Rightarrow> Inl e
            | Inr d \<Rightarrow> Inr (nativeId d))
      else Inr (-1))"

definition getDeviceProp :: "DeviceManager \<Rightarrow> int \<Rightarrow> failure + cudaDeviceProp" where
  "getDeviceProp m device =
     (if device < int (length (cuDevices m))
      then (case vector_at (cuDevices m) device of
              Inl e \<Rightarrow> Inl e
            | Inr d \<Rightarrow> Inr (dev_prop d))
      else (case vector_at (cuDevices m) 0 of
              Inl e \<Rightarrow> Inl e
            | Inr d \<Rightarrow> Inr (dev_prop d)))"

subsection \<open>setActiveDevice\<close>

text \<open>
  The macro \<open>CUDA\<close> ends the process when the call does not give \<open>cudaSuccess\<close>. No function
  of the file reads the runtime's current device back, so the runtime keeps no state here.
\<close>

definition setActiveDevice ::
  "cuda_runtime \<Rightarrow> DeviceManager \<Rightarrow> int \<Rightarrow> failure + (int \<times> DeviceManager)" where
  "setActiveDevice rt m device =
     (if device > int (length (cuDevices m)) then Inr (-1, m)
      else (let old = activeDev m in
            if cudaSetDevice rt device \<noteq> cudaSuccess then Inl CudaExit
            else Inr (old, m\<lparr>activeDev := device\<rparr>)))"

definition setDevice ::
  "cuda_runtime \<Rightarrow> DeviceManager \<Rightarrow> int \<Rightarrow> failure + (int \<times> DeviceManager)" where
  "setDevice rt m device = setActiveDevice rt m device"

subsection \<open>The constructor\<close>

text \<open>
  The score is a product of three \<open>int\<close> values, taken from left to right in \<open>int\<close>
  arithmetic; a product beyond the range of \<open>int\<close> wraps around in the compiled code.
\<close>

definition make_device :: "cuda_runtime \<Rightarrow> int \<Rightarrow> cudaDevice_t" where
  "make_device rt i =
     (let p = cudaGetDeviceProperties rt i
      in \<lparr>dev_prop = p,
          flops = int32 (int32 (multiProcessorCount p * compute2cores (major p) (minor p))
                         * clockRate p),
          nativeId = i\<rparr>)"

function discover_loop ::
  "cuda_runtime \<Rightarrow> int \<Rightarrow> int \<Rightarrow> cudaDevice_t list \<Rightarrow> cudaDevice_t list" where
  "discover_loop rt i n devs =
     (if i < n then discover_loop rt (i + 1) n (devs @ [make_device rt i]) else devs)"
  by pat_completeness auto
termination
  by (relation "measure (\<lambda>(rt, i, n, devs). nat (n - i))") auto

declare discover_loop.simps [simp del]

text \<open>
  \<open>default_mode\<close> is the default argument of \<open>sortDevices\<close>, which platform.hpp declares.
  \<open>reserve\<close> converts the count to the unsigned \<open>size_type\<close> and throws
  \<open>std::length_error\<close> for a request beyond \<open>max_size()\<close>, which every negative count is.
  The result is \<open>None\<close> where \<open>std_sort\<close> gives none.
\<close>

definition DeviceManager_ctor ::
  "sort_mode \<Rightarrow> cuda_runtime \<Rightarrow> (failure + DeviceManager) option" where
  "DeviceManager_ctor default_mode rt =
     (let m0 = \<lparr>cuDevices = [], activeDev = 0, nDevices = 0\<rparr> in
      case cudaGetDeviceCount rt of (err, n) \<Rightarrow>
        if err \<noteq> cudaSuccess then Some (Inl CudaExit)
        else (let m1 = m0\<lparr>nDevices := n\<rparr> in
          if nDevices m1 = 0 then Some (Inl (RuntimeError ''No CUDA-Capable devices found''))
          else if nDevices m1 < 0 then Some (Inl LengthError)
          else (let m2 = m1\<lparr>cuDevices := discover_loop rt 0 (nDevices m1) (cuDevices m1)\<rparr>
                in case sortDevices m2 default_mode of
                     None \<Rightarrow> None
                   | Some (Inl e) \<Rightarrow> Some (Inl e)
                   | Some (Inr m3) \<Rightarrow>
                       (case setActiveDevice rt m3 0 of
                          Inl e \<Rightarrow> Some (Inl e)
                        | Inr (old, m4) \<Rightarrow> Some (Inr m4)))))"

subsection \<open>getDeviceInfo\<close>

definition digit_char :: "nat \<Rightarrow> char" where
  "digit_char d = ''0123456789'' ! d"

fun toString_nat :: "nat \<Rightarrow> string" where
  "toString_nat n =
     (if n < 10 then [digit_char n] else toString_nat (n div 10) @ [digit_char (n mod 10)])"

declare toString_nat.simps [simp del]

definition toString_int :: "int \<Rightarrow> string" where
  "toString_int i = (if i < 0 then CHR ''-'' # toString_nat (nat (- i)) else toString_nat (nat i))"

definition getDeviceInfo :: "DeviceManager \<Rightarrow> int \<Rightarrow> failure + string" where
  "getDeviceInfo m device =
     (case getDeviceProp m device of
        Inl e \<Rightarrow> Inl e
      | Inr dev \<Rightarrow>
          (let mem_gpu_total = totalGlobalMem dev;
               show_braces = (getActiveDeviceId m = device);
               ident = (if show_braces then ''['' else ''-'') @ toString_int device @
                       (if show_braces then '']'' else ''-'');
               nm = name dev;
               memory = toString_nat (mem_gpu_total div (1024 * 1024)
                          + (if mem_gpu_total mod (1024 * 1024) \<noteq> 0 then 1 else 0))
                        @ '' MB'';
               compute = ''CUDA Compute '' @ toString_int (major dev) @ ''.'' @
                         toString_int (minor dev);
               info = ident @ '' '' @ nm @ '', '' @ memory @ '', '' @ compute @ [CHR 0x0A]
           in Inr info))"

subsection \<open>Properties of a registry and of the runtime\<close>

definition valid_position :: "DeviceManager \<Rightarrow> int \<Rightarrow> bool" where
  "valid_position m p \<longleftrightarrow> 0 \<le> p \<and> p < int (length (cuDevices m))"

definition registry_inv :: "DeviceManager \<Rightarrow> bool" where
  "registry_inv m \<longleftrightarrow> valid_position m (activeDev m)"

text \<open>The values of a field in the order that a sort leaves the devices in.\<close>

definition field_order ::
  "(cudaDevice_t \<Rightarrow> 'a) \<Rightarrow> (failure + DeviceManager) option \<Rightarrow> (failure + 'a list) option" where
  "field_order f r = map_option (map_sum id (\<lambda>m. map f (cuDevices m))) r"

text \<open>The codes \<open>0xMm\<close> of the table, and the revisions they stand for.\<close>

definition listed_codes :: "int list" where
  "listed_codes = [0x10, 0x11, 0x12, 0x13, 0x20, 0x21, 0x30, 0x35, 0x50]"

definition listed_revisions :: "(int \<times> int) list" where
  "listed_revisions = [(1, 0), (1, 1), (1, 2), (1, 3), (2, 0), (2, 1), (3, 0), (3, 5), (5, 0)]"

subsection \<open>Example platforms\<close>

text \<open>
  The three simulated devices of the specification, in discovery order: revision 3.5 with 15
  units at 745, revision 5.0 with 20 units at 1000, revision 2.0 with 8 units at 1500, with
  4, 8 and 2 GiB of memory.
\<close>

definition sim_props :: "cudaDeviceProp list" where
  "sim_props =
     [\<lparr>name = ''sim0'', totalGlobalMem = 4294967296, major = 3, minor = 5,
       multiProcessorCount = 15, clockRate = 745\<rparr>,
      \<lparr>name = ''sim1'', totalGlobalMem = 8589934592, major = 5, minor = 0,
       multiProcessorCount = 20, clockRate = 1000\<rparr>,
      \<lparr>name = ''sim2'', totalGlobalMem = 2147483648, major = 2, minor = 0,
       multiProcessorCount = 8, clockRate = 1500\<rparr>]"

text \<open>A runtime that serves a list of devices and accepts exactly their ordinals.\<close>

definition runtime_of :: "cudaDeviceProp list \<Rightarrow> cuda_runtime" where
  "runtime_of ps =
     \<lparr>cudaGetDeviceCount = (cudaSuccess, int (length ps)),
      cudaGetDeviceProperties = (\<lambda>i. ps ! nat i),
      cudaSetDevice = (\<lambda>d. if 0 \<le> d \<and> d < int (length ps) then cudaSuccess
                            else cudaErrorInvalidDevice)\<rparr>"

definition sim_devices :: "cudaDevice_t list" where
  "sim_devices = discover_loop (runtime_of sim_props) 0 3 []"

definition sim_manager :: DeviceManager where
  "sim_manager = \<lparr>cuDevices = sim_devices, activeDev = 0, nDevices = 3\<rparr>"

text \<open>
  Two cards of one model, the first with 6 GiB and the second with 3 GiB: equal scores,
  different memory. And two cards that differ in nothing but the native index.
\<close>

definition pair_props :: "cudaDeviceProp list" where
  "pair_props =
     [\<lparr>name = ''big'', totalGlobalMem = 6442450944, major = 3, minor = 5,
       multiProcessorCount = 12, clockRate = 863\<rparr>,
      \<lparr>name = ''small'', totalGlobalMem = 3221225472, major = 3, minor = 5,
       multiProcessorCount = 12, clockRate = 863\<rparr>]"

definition pair_manager :: DeviceManager where
  "pair_manager =
     \<lparr>cuDevices = discover_loop (runtime_of pair_props) 0 2 [], activeDev = 0, nDevices = 2\<rparr>"

definition twin_props :: "cudaDeviceProp list" where
  "twin_props =
     [\<lparr>name = ''twin'', totalGlobalMem = 3221225472, major = 3, minor = 5,
       multiProcessorCount = 12, clockRate = 863\<rparr>,
      \<lparr>name = ''twin'', totalGlobalMem = 3221225472, major = 3, minor = 5,
       multiProcessorCount = 12, clockRate = 863\<rparr>]"

definition twin_manager :: DeviceManager where
  "twin_manager =
     \<lparr>cuDevices = discover_loop (runtime_of twin_props) 0 2 [], activeDev = 0, nDevices = 2\<rparr>"

text \<open>The same runtime, except that it accepts every ordinal, as a simulated platform may.\<close>

definition lax_runtime_of :: "cudaDeviceProp list \<Rightarrow> cuda_runtime" where
  "lax_runtime_of ps = (runtime_of ps)\<lparr>cudaSetDevice := (\<lambda>d. cudaSuccess)\<rparr>"





text \<open>Devices with 3 MiB of memory, and with one byte more.\<close>

definition mem_props :: "cudaDeviceProp list" where
  "mem_props =
     [\<lparr>name = ''exact'', totalGlobalMem = 3145728, major = 2, minor = 1,
       multiProcessorCount = 2, clockRate = 1000\<rparr>,
      \<lparr>name = ''over'', totalGlobalMem = 3145729, major = 2, minor = 1,
       multiProcessorCount = 2, clockRate = 1000\<rparr>]"

definition mem_manager :: DeviceManager where
  "mem_manager =
     \<lparr>cuDevices = discover_loop (runtime_of mem_props) 0 2 [], activeDev = 0, nDevices = 2\<rparr>"

section \<open>Properties\<close>

subsection \<open>What the comparison functions compare\<close>

text \<open>The first \<open>COMPARE\<close> of each function returns, so the later statements never run.\<close>

lemma card_compare_flops_eq: "card_compare_flops l r \<longleftrightarrow> flops r \<le> flops l"
  by (simp add: card_compare_flops_def COMPARE_def)

lemma card_compare_mem_eq:
  "card_compare_mem l r \<longleftrightarrow> totalGlobalMem (dev_prop r) \<le> totalGlobalMem (dev_prop l)"
  by (simp add: card_compare_mem_def COMPARE_def)

lemma card_compare_compute_eq:
  "card_compare_compute l r \<longleftrightarrow> major (dev_prop r) \<le> major (dev_prop l)"
  by (simp add: card_compare_compute_def COMPARE_def)

lemma card_compare_num_eq: "card_compare_num l r \<longleftrightarrow> nativeId r \<le> nativeId l"
  by (simp add: card_compare_num_def COMPARE_def)

lemma card_compare_flops_fun: "card_compare_flops = (\<lambda>a b. flops b \<le> flops a)"
  by (intro ext) (simp add: card_compare_flops_eq)

lemma card_compare_mem_fun:
  "card_compare_mem = (\<lambda>a b. totalGlobalMem (dev_prop b) \<le> totalGlobalMem (dev_prop a))"
  by (intro ext) (simp add: card_compare_mem_eq)

lemma card_compare_compute_fun:
  "card_compare_compute = (\<lambda>a b. major (dev_prop b) \<le> major (dev_prop a))"
  by (intro ext) (simp add: card_compare_compute_eq)

lemma card_compare_num_fun: "card_compare_num = (\<lambda>a b. nativeId b \<le> nativeId a)"
  by (intro ext) (simp add: card_compare_num_eq)

subsection \<open>The insertion sort permutes, and orders by a key\<close>

lemma mset_linear_insert: "mset (linear_insert cmp val xs) = add_mset val (mset xs)"
  by (induction xs) auto

lemma mset_insertion_step: "mset (insertion_step cmp xs val) = add_mset val (mset xs)"
  by (cases xs) (simp_all add: mset_linear_insert)

lemma mset_insertion_loop:
  "mset (insertion_loop cmp acc xs) = mset acc + mset xs"
  by (induction xs arbitrary: acc) (simp_all add: mset_insertion_step)

lemma mset_insertion_sort: "mset (insertion_sort cmp xs) = mset xs"
  by (cases xs) (simp_all add: insertion_sort_def mset_insertion_loop)

lemma length_insertion_sort: "length (insertion_sort cmp xs) = length xs"
  using mset_insertion_sort [of cmp xs] by (metis size_mset)

lemma set_linear_insert: "set (linear_insert cmp val xs) = insert val (set xs)"
  using mset_linear_insert [of cmp val xs] by (metis set_mset_add_mset_insert set_mset_mset)

lemma sorted_linear_insert:
  "sorted (map key xs) \<Longrightarrow> sorted (map key (linear_insert (\<lambda>a b. key b \<le> key a) val xs))"
  by (induction xs) (auto simp: set_linear_insert)

lemma sorted_insertion_step:
  assumes "sorted (map key (rev xs))"
  shows "sorted (map key (rev (insertion_step (\<lambda>a b. key b \<le> key a) xs val)))"
proof (cases xs)
  case Nil
  then show ?thesis by simp
next
  case (Cons first rest)
  show ?thesis
  proof (cases "key first \<le> key val")
    case True
    have "\<forall>k \<in> set (map key (rev xs)). k \<le> key first"
      using assms Cons by (auto simp: sorted_append)
    with True assms Cons show ?thesis
      by (auto simp: sorted_append)
  next
    case False
    with Cons assms sorted_linear_insert [of key "rev xs" val] show ?thesis
      by simp
  qed
qed

lemma sorted_insertion_loop:
  "sorted (map key (rev acc)) \<Longrightarrow>
   sorted (map key (rev (insertion_loop (\<lambda>a b. key b \<le> key a) acc xs)))"
  by (induction xs arbitrary: acc) (simp_all add: sorted_insertion_step)

lemma sorted_insertion_sort:
  "sorted (map key (rev (insertion_sort (\<lambda>a b. key b \<le> key a) xs)))"
  by (cases xs) (simp_all add: insertion_sort_def sorted_insertion_loop)

lemma insertion_sort_keys:
  fixes key :: "'a \<Rightarrow> 'b::linorder"
  shows "map key (insertion_sort (\<lambda>a b. key b \<le> key a) xs) = rev (sort (map key xs))"
proof -
  let ?ys = "insertion_sort (\<lambda>a b. key b \<le> key a) xs"
  have "mset (map key (rev ?ys)) = mset (map key xs)"
    by (simp add: mset_insertion_sort)
  then have "sort (map key xs) = map key (rev ?ys)"
    using sorted_insertion_sort [of key xs] by (rule properties_for_sort)
  then show ?thesis by (simp add: rev_map)
qed

subsection \<open>std::sort on short ranges, and on long ranges of tied elements\<close>

lemma std_sort_small:
  "length xs \<le> 16 \<Longrightarrow> std_sort cmp xs = Some (Inr (insertion_sort cmp xs))"
  by (simp add: std_sort_def)





subsection \<open>The discovery loop and sortDevices\<close>

lemma discover_loop_eq: "discover_loop rt i n devs = devs @ map (make_device rt) [i..n - 1]"
proof (induction rt i n devs rule: discover_loop.induct)
  case (1 rt i n devs)
  show ?case
  proof (cases "i < n")
    case True
    then have "[i..n - 1] = i # [i + 1..n - 1]"
      by (simp add: upto.simps)
    with True 1 show ?thesis
      by (simp add: discover_loop.simps [of rt i n devs])
  next
    case False
    then show ?thesis
      by (simp add: discover_loop.simps [of rt i n devs])
  qed
qed

lemma sort_in_place_small:
  "length (cuDevices m) \<le> 16 \<Longrightarrow>
   sort_in_place m cmp = Some (Inr (m\<lparr>cuDevices := insertion_sort cmp (cuDevices m)\<rparr>))"
  by (simp add: sort_in_place_def std_sort_small)


lemma sortDevices_small:
  assumes "length (cuDevices m) \<le> 16"
  shows "\<exists>ds. sortDevices m mode = Some (Inr (m\<lparr>cuDevices := ds\<rparr>)) \<and> mset ds = mset (cuDevices m)"
proof -
  obtain cmp where "sortDevices m mode = sort_in_place m cmp"
    by (cases mode) (simp_all add: sortDevices_def)
  with assms have "sortDevices m mode
                     = Some (Inr (m\<lparr>cuDevices := insertion_sort cmp (cuDevices m)\<rparr>))"
    by (simp add: sort_in_place_small)
  moreover have "mset (insertion_sort cmp (cuDevices m)) = mset (cuDevices m)"
    by (rule mset_insertion_sort)
  ultimately show ?thesis by blast
qed

lemma sortDevices_none_keys:
  assumes "length (cuDevices m) \<le> 16"
  shows "field_order nativeId (sortDevices m sort_none)
           = Some (Inr (rev (sort (map nativeId (cuDevices m)))))"
  using assms
  by (simp add: sortDevices_def sort_in_place_small field_order_def card_compare_num_fun
      insertion_sort_keys)

lemma sortDevices_flops_keys:
  assumes "length (cuDevices m) \<le> 16"
  shows "field_order flops (sortDevices m sort_flops)
           = Some (Inr (rev (sort (map flops (cuDevices m)))))"
  using assms
  by (simp add: sortDevices_def sort_in_place_small field_order_def card_compare_flops_fun
      insertion_sort_keys)

subsection \<open>Values of the score\<close>

lemma int32_id: "- 2147483648 \<le> x \<Longrightarrow> x < 2147483648 \<Longrightarrow> int32 x = x"
  by (simp add: int32_def)

lemma compute2cores_values:
  "compute2cores 3 5 = 192" "compute2cores 5 0 = 128" "compute2cores 2 0 = 32"
  "compute2cores 2 1 = 48" "compute2cores 5 2 = 0"
  by (simp_all add: compute2cores_def int32_def gpus_def)

subsection \<open>The example platforms, discovered\<close>

lemma pair_devices_eval:
  "cuDevices pair_manager =
     [\<lparr>dev_prop = pair_props ! 0, flops = 1988352, nativeId = 0\<rparr>,
      \<lparr>dev_prop = pair_props ! 1, flops = 1988352, nativeId = 1\<rparr>]"
  apply (simp add: pair_manager_def discover_loop_eq upto.simps make_device_def Let_def runtime_of_def)
  apply (simp add: pair_props_def compute2cores_values)
  apply (simp add: int32_def)
  done

lemma twin_devices_eval:
  "cuDevices twin_manager =
     [\<lparr>dev_prop = twin_props ! 0, flops = 1988352, nativeId = 0\<rparr>,
      \<lparr>dev_prop = twin_props ! 1, flops = 1988352, nativeId = 1\<rparr>]"
  apply (simp add: twin_manager_def discover_loop_eq upto.simps make_device_def Let_def runtime_of_def)
  apply (simp add: twin_props_def compute2cores_values)
  apply (simp add: int32_def)
  done

lemma sim_devices_eval:
  "sim_devices =
     [\<lparr>dev_prop = sim_props ! 0, flops = 2145600, nativeId = 0\<rparr>,
      \<lparr>dev_prop = sim_props ! 1, flops = 2560000, nativeId = 1\<rparr>,
      \<lparr>dev_prop = sim_props ! 2, flops = 384000, nativeId = 2\<rparr>]"
  apply (simp add: sim_devices_def discover_loop_eq upto.simps make_device_def Let_def runtime_of_def)
  apply (simp add: sim_props_def compute2cores_values)
  apply (simp add: int32_def)
  done


lemma mem_devices_eval:
  "cuDevices mem_manager =
     [\<lparr>dev_prop = mem_props ! 0, flops = 96000, nativeId = 0\<rparr>,
      \<lparr>dev_prop = mem_props ! 1, flops = 96000, nativeId = 1\<rparr>]"
  apply (simp add: mem_manager_def discover_loop_eq upto.simps make_device_def Let_def runtime_of_def)
  apply (simp add: mem_props_def compute2cores_values)
  apply (simp add: int32_def)
  done

lemmas sort_eval = sortDevices_def sort_in_place_def std_sort_def insertion_sort_def
  field_order_def

subsection \<open>Ranking\<close>

text \<open>
  C1 (the claim: every mode orders by its key sequence with cascading tie-breaks, the last
  one ascending \<open>nativeId\<close>, which makes the order deterministic and total). The code
  compares the first key only. Two cards with the same score are discovered as 0 (6 GiB) and
  1 (3 GiB): \<open>card_compare_flops\<close> puts each of them before the other, and \<open>sortDevices\<close>
  by throughput puts the card with less memory first. Two cards equal in everything are put
  in descending order of \<open>nativeId\<close>, and sorting the result once more swaps them back.
\<close>

theorem sortDevices_flops_ignores_tie_breaks:
  "field_order (\<lambda>d. (nativeId d, totalGlobalMem (dev_prop d)))
       (sortDevices pair_manager sort_flops) = Some (Inr [(1, 3221225472), (0, 6442450944)])
   \<and> map flops (cuDevices pair_manager) = [1988352, 1988352]
   \<and> card_compare_flops (cuDevices pair_manager ! 0) (cuDevices pair_manager ! 1)
   \<and> card_compare_flops (cuDevices pair_manager ! 1) (cuDevices pair_manager ! 0)
   \<and> map nativeId (cuDevices twin_manager) = [0, 1]
   \<and> field_order nativeId (sortDevices twin_manager sort_flops) = Some (Inr [1, 0])
   \<and> sortDevices twin_manager sort_flops
       = Some (Inr (twin_manager\<lparr>cuDevices := rev (cuDevices twin_manager)\<rparr>))
   \<and> field_order nativeId
        (sortDevices (twin_manager\<lparr>cuDevices := rev (cuDevices twin_manager)\<rparr>) sort_flops)
       = Some (Inr [0, 1])"
  by (simp add: sort_eval card_compare_flops_eq pair_devices_eval twin_devices_eval
      pair_props_def)

text \<open>
  C2 (the claim: the mode \<open>none\<close> restores ascending native discovery order). On the three
  simulated devices, discovered as 0, 1, 2, the code yields the order 2, 1, 0.
\<close>

theorem sortDevices_none_is_descending:
  "map nativeId (cuDevices sim_manager) = [0, 1, 2]
   \<and> field_order nativeId (sortDevices sim_manager sort_none) = Some (Inr [2, 1, 0])"
  by (simp add: sort_eval card_compare_num_eq sim_manager_def sim_devices_eval)

subsection \<open>Lookups by position\<close>

text \<open>
  C8 (the claim: \<open>getDeviceNativeId\<close> gives -1 for every position outside the range). The
  position -1 passes the check against the size, and the code reads the vector out of range.
\<close>

theorem getDeviceNativeId_negative_position:
  "getDeviceNativeId m (- 1) = Inl OutOfRange"
  by (simp add: getDeviceNativeId_def vector_at_def)

text \<open>
  C9 (the claim: \<open>getDeviceProp\<close> gives the descriptor at position 0 for every position
  outside the range). The position -1 passes the check against the size, and the code reads
  the vector out of range.
\<close>

theorem getDeviceProp_negative_position:
  "getDeviceProp m (- 1) = Inl OutOfRange"
  by (simp add: getDeviceProp_def vector_at_def)

lemma getDeviceNativeId_valid:
  "valid_position m p \<Longrightarrow> getDeviceNativeId m p = Inr (nativeId (cuDevices m ! nat p))"
  by (simp add: getDeviceNativeId_def vector_at_def valid_position_def)

lemma getDeviceNativeId_above:
  "int (length (cuDevices m)) \<le> p \<Longrightarrow> getDeviceNativeId m p = Inr (- 1)"
  by (simp add: getDeviceNativeId_def)

lemma getDeviceNativeId_negative:
  "p < 0 \<Longrightarrow> getDeviceNativeId m p = Inl OutOfRange"
  by (simp add: getDeviceNativeId_def vector_at_def)

lemma getDeviceProp_valid:
  "valid_position m p \<Longrightarrow> getDeviceProp m p = Inr (dev_prop (cuDevices m ! nat p))"
  by (simp add: getDeviceProp_def vector_at_def valid_position_def)

lemma getDeviceProp_above:
  "int (length (cuDevices m)) \<le> p \<Longrightarrow> cuDevices m \<noteq> [] \<Longrightarrow>
   getDeviceProp m p = Inr (dev_prop (cuDevices m ! 0))"
  by (simp add: getDeviceProp_def vector_at_def)

lemma getDeviceProp_negative:
  "p < 0 \<Longrightarrow> getDeviceProp m p = Inl OutOfRange"
  by (simp add: getDeviceProp_def vector_at_def)

subsection \<open>The active device\<close>

lemma make_device_fields:
  "nativeId (make_device rt i) = i"
  "dev_prop (make_device rt i) = cudaGetDeviceProperties rt i"
  "flops (make_device rt i) =
     int32 (int32 (multiProcessorCount (cudaGetDeviceProperties rt i)
                   * compute2cores (major (cudaGetDeviceProperties rt i))
                                   (minor (cudaGetDeviceProperties rt i)))
            * clockRate (cudaGetDeviceProperties rt i))"
  by (simp_all add: make_device_def Let_def)

lemma setActiveDevice_cases:
  "setActiveDevice rt m p =
     (if int (length (cuDevices m)) < p then Inr (- 1, m)
      else if cudaSetDevice rt p = cudaSuccess then Inr (activeDev m, m\<lparr>activeDev := p\<rparr>)
      else Inl CudaExit)"
  by (simp add: setActiveDevice_def Let_def)

lemma setActiveDevice_at_size:
  "setActiveDevice rt m (int (length (cuDevices m))) =
     (if cudaSetDevice rt (int (length (cuDevices m))) = cudaSuccess
      then Inr (activeDev m, m\<lparr>activeDev := int (length (cuDevices m))\<rparr>)
      else Inl CudaExit)"
  by (simp add: setActiveDevice_cases)

lemma setActiveDevice_above_size:
  "int (length (cuDevices m)) < p \<Longrightarrow> setActiveDevice rt m p = Inr (- 1, m)"
  by (simp add: setActiveDevice_cases)

lemma sim_manager_inv: "registry_inv sim_manager"
  by (simp add: registry_inv_def valid_position_def sim_manager_def sim_devices_eval)

text \<open>
  C3 (the claim: \<open>setActiveDevice\<close> rejects every position outside the range of the
  devices and keeps \<open>0 \<le> activeDev < size\<close>). The check of the code is \<open>device > size\<close>:
  it lets the position equal to the size and every negative position through to
  \<open>cudaSetDevice\<close>, and the code then stores whatever the runtime accepts. On a registry
  of three devices and a runtime that accepts every ordinal, the positions 3 and -1 become
  the active position and the invariant is lost; on a runtime that rejects the ordinal 3
  the call does not return an error but ends the process in the macro \<open>CUDA\<close>. Only a
  position above the size is refused by the code itself.
\<close>

theorem setActiveDevice_lets_size_through:
  "registry_inv sim_manager
   \<and> \<not> valid_position sim_manager 3
   \<and> setActiveDevice (lax_runtime_of sim_props) sim_manager 3
       = Inr (0, sim_manager\<lparr>activeDev := 3\<rparr>)
   \<and> \<not> registry_inv (sim_manager\<lparr>activeDev := 3\<rparr>)
   \<and> \<not> valid_position sim_manager (- 1)
   \<and> setActiveDevice (lax_runtime_of sim_props) sim_manager (- 1)
       = Inr (0, sim_manager\<lparr>activeDev := - 1\<rparr>)
   \<and> \<not> registry_inv (sim_manager\<lparr>activeDev := - 1\<rparr>)
   \<and> setActiveDevice (runtime_of sim_props) sim_manager 3 = Inl CudaExit
   \<and> setActiveDevice (lax_runtime_of sim_props) sim_manager 4 = Inr (- 1, sim_manager)"
proof -
  have l: "length (cuDevices sim_manager) = 3" and a: "activeDev sim_manager = 0"
    by (simp_all add: sim_manager_def sim_devices_eval)
  have lax: "cudaSetDevice (lax_runtime_of sim_props) 3 = cudaSuccess"
    "cudaSetDevice (lax_runtime_of sim_props) (- 1) = cudaSuccess"
    by (simp_all add: lax_runtime_of_def)
  have strict: "cudaSetDevice (runtime_of sim_props) 3 = cudaErrorInvalidDevice"
    by (simp add: runtime_of_def sim_props_def)
  have v: "\<not> valid_position sim_manager 3" "\<not> valid_position sim_manager (- 1)"
    by (simp_all add: valid_position_def l)
  have i: "\<not> registry_inv (sim_manager\<lparr>activeDev := 3\<rparr>)"
    "\<not> registry_inv (sim_manager\<lparr>activeDev := - 1\<rparr>)"
    by (simp_all add: registry_inv_def valid_position_def l)
  have s: "setActiveDevice (lax_runtime_of sim_props) sim_manager 3
             = Inr (0, sim_manager\<lparr>activeDev := 3\<rparr>)"
    "setActiveDevice (lax_runtime_of sim_props) sim_manager (- 1)
             = Inr (0, sim_manager\<lparr>activeDev := - 1\<rparr>)"
    "setActiveDevice (runtime_of sim_props) sim_manager 3 = Inl CudaExit"
    "setActiveDevice (lax_runtime_of sim_props) sim_manager 4 = Inr (- 1, sim_manager)"
    by (simp_all add: setActiveDevice_cases l a lax strict)
  from sim_manager_inv v i s show ?thesis by simp
qed

text \<open>
  C4: for a valid position \<open>p\<close> that the runtime accepts, \<open>setActiveDevice\<close> returns the
  position that was active, \<open>getActiveDeviceId\<close> then gives \<open>p\<close>, and \<open>setActiveDevice\<close>
  with the returned position gives \<open>p\<close> back and the registry it started from.
\<close>

theorem setActiveDevice_round_trip:
  assumes "valid_position m p" and "registry_inv m"
      and "cudaSetDevice rt p = cudaSuccess" and "cudaSetDevice rt (activeDev m) = cudaSuccess"
  shows "\<exists>m'. setActiveDevice rt m p = Inr (activeDev m, m')
            \<and> getActiveDeviceId m' = p
            \<and> setActiveDevice rt m' (activeDev m) = Inr (p, m)"
  using assms
  by (simp add: setActiveDevice_cases getActiveDeviceId_def valid_position_def registry_inv_def)

theorem setActiveDevice_round_trip_witness:
  "valid_position sim_manager 2 \<and> registry_inv sim_manager
   \<and> cudaSetDevice (runtime_of sim_props) 2 = cudaSuccess
   \<and> cudaSetDevice (runtime_of sim_props) (activeDev sim_manager) = cudaSuccess
   \<and> (\<exists>m'. setActiveDevice (runtime_of sim_props) sim_manager 2 = Inr (0, m')
          \<and> getActiveDeviceId m' = 2
          \<and> setActiveDevice (runtime_of sim_props) m' 0 = Inr (2, sim_manager))"
proof -
  have v: "valid_position sim_manager 2"
    by (simp add: valid_position_def sim_manager_def sim_devices_eval)
  have c2: "cudaSetDevice (runtime_of sim_props) 2 = cudaSuccess"
    by (simp add: runtime_of_def sim_props_def)
  have c0: "cudaSetDevice (runtime_of sim_props) (activeDev sim_manager) = cudaSuccess"
    by (simp add: runtime_of_def sim_props_def sim_manager_def)
  have a: "activeDev sim_manager = 0"
    by (simp add: sim_manager_def)
  from setActiveDevice_round_trip [OF v sim_manager_inv c2 c0] v sim_manager_inv c2 c0 a
  show ?thesis by simp
qed

subsection \<open>Discovery\<close>

lemma DeviceManager_ctor_no_devices:
  "cudaGetDeviceCount rt = (cudaSuccess, 0) \<Longrightarrow>
   DeviceManager_ctor dm rt = Some (Inl (RuntimeError ''No CUDA-Capable devices found''))"
  by (simp add: DeviceManager_ctor_def)

lemma DeviceManager_ctor_negative:
  "cudaGetDeviceCount rt = (cudaSuccess, n) \<Longrightarrow> n < 0 \<Longrightarrow>
   DeviceManager_ctor dm rt = Some (Inl LengthError)"
  by (simp add: DeviceManager_ctor_def)

lemma DeviceManager_ctor_sorts:
  assumes "cudaGetDeviceCount rt = (cudaSuccess, n)" and "0 < n"
  shows "DeviceManager_ctor dm rt =
     (case sortDevices \<lparr>cuDevices = map (make_device rt) [0..n - 1], activeDev = 0,
                        nDevices = n\<rparr> dm of
        None \<Rightarrow> None
      | Some (Inl e) \<Rightarrow> Some (Inl e)
      | Some (Inr m3) \<Rightarrow>
          (case setActiveDevice rt m3 0 of
             Inl e \<Rightarrow> Some (Inl e)
           | Inr (old, m4) \<Rightarrow> Some (Inr m4)))"
  using assms by (simp add: DeviceManager_ctor_def Let_def discover_loop_eq)

lemma DeviceManager_ctor_small:
  assumes "cudaGetDeviceCount rt = (cudaSuccess, n)" and "0 < n" and "n \<le> 16"
      and "cudaSetDevice rt 0 = cudaSuccess"
  shows "\<exists>m. DeviceManager_ctor dm rt = Some (Inr m)
           \<and> mset (cuDevices m) = mset (map (make_device rt) [0..n - 1])
           \<and> length (cuDevices m) = nat n \<and> nDevices m = n \<and> activeDev m = 0"
proof -
  let ?m2 = "\<lparr>cuDevices = map (make_device rt) [0..n - 1], activeDev = 0, nDevices = n\<rparr>"
  from assms(2,3) have "length (cuDevices ?m2) \<le> 16" by simp
  then obtain ds where s: "sortDevices ?m2 dm = Some (Inr (?m2\<lparr>cuDevices := ds\<rparr>))"
    and ms: "mset ds = mset (cuDevices ?m2)"
    using sortDevices_small by blast
  from ms have len: "length ds = length (cuDevices ?m2)"
    by (metis size_mset)
  have "DeviceManager_ctor dm rt = Some (Inr (?m2\<lparr>cuDevices := ds, activeDev := 0\<rparr>))"
    using assms(1,2,4) s len
    by (simp add: DeviceManager_ctor_sorts setActiveDevice_cases)
  with ms len assms(2) show ?thesis by simp
qed




subsection \<open>The throughput score\<close>



lemma flops_without_overflow:
  assumes "- 2147483648 \<le> multiProcessorCount (cudaGetDeviceProperties rt i)
              * compute2cores (major (cudaGetDeviceProperties rt i))
                              (minor (cudaGetDeviceProperties rt i))"
      and "multiProcessorCount (cudaGetDeviceProperties rt i)
              * compute2cores (major (cudaGetDeviceProperties rt i))
                              (minor (cudaGetDeviceProperties rt i)) < 2147483648"
      and "- 2147483648 \<le> multiProcessorCount (cudaGetDeviceProperties rt i)
              * compute2cores (major (cudaGetDeviceProperties rt i))
                              (minor (cudaGetDeviceProperties rt i))
              * clockRate (cudaGetDeviceProperties rt i)"
      and "multiProcessorCount (cudaGetDeviceProperties rt i)
              * compute2cores (major (cudaGetDeviceProperties rt i))
                              (minor (cudaGetDeviceProperties rt i))
              * clockRate (cudaGetDeviceProperties rt i) < 2147483648"
  shows "flops (make_device rt i) =
          multiProcessorCount (cudaGetDeviceProperties rt i)
          * compute2cores (major (cudaGetDeviceProperties rt i))
                          (minor (cudaGetDeviceProperties rt i))
          * clockRate (cudaGetDeviceProperties rt i)"
  using assms by (simp add: make_device_fields int32_id)

subsection \<open>The device line\<close>

lemma round_up_div:
  fixes n M :: nat
  assumes "0 < M"
  shows "n div M + (if n mod M \<noteq> 0 then 1 else 0) = (n + (M - 1)) div M"
proof -
  let ?r = "n mod M"
  have b: "(M - 1) div M = 0" "(M - 1) mod M = M - 1"
    using assms by simp_all
  have "(n + (M - 1)) div M = n div M + (M - 1) div M + (?r + (M - 1) mod M) div M"
    by (rule div_add1_eq)
  then have d: "(n + (M - 1)) div M = n div M + (?r + (M - 1)) div M"
    using b by simp
  have r: "(?r + (M - 1)) div M = (if ?r \<noteq> 0 then 1 else 0)"
  proof (cases "?r = 0")
    case True
    with b show ?thesis by simp
  next
    case False
    have "?r < M" using assms by simp
    with False have "M * 1 \<le> ?r + (M - 1)" and "?r + (M - 1) < M * Suc 1"
      by simp_all
    then have "(?r + (M - 1)) div M = 1"
      by (rule div_nat_eqI)
    with False show ?thesis by simp
  qed
  from d r show ?thesis by simp
qed

lemma megabytes_round_up:
  "(n::nat) div (1024 * 1024) + (if n mod (1024 * 1024) \<noteq> 0 then 1 else 0)
     = (n + 1048575) div 1048576"
  using round_up_div [of 1048576 n] by simp

lemma megabytes_least:
  "(n::nat) \<le> k * 1048576 \<longleftrightarrow> (n + 1048575) div 1048576 \<le> k"
proof -
  have "(n + 1048575) div 1048576 \<le> k \<longleftrightarrow> (n + 1048575) div 1048576 < Suc k"
    by arith
  also have "\<dots> \<longleftrightarrow> n + 1048575 < Suc k * 1048576"
    by (simp add: div_less_iff_less_mult)
  also have "\<dots> \<longleftrightarrow> n \<le> k * 1048576"
    by auto
  finally show ?thesis by simp
qed

lemma toString_small:
  "toString_nat 0 = ''0''" "toString_nat (Suc 0) = ''1''" "toString_nat 2 = ''2''"
  "toString_nat 3 = ''3''" "toString_nat 4 = ''4''"
  by (simp_all add: toString_nat.simps [of 0] toString_nat.simps [of "Suc 0"]
      toString_nat.simps [of 2] toString_nat.simps [of 3] toString_nat.simps [of 4]
      digit_char_def)

lemma toString_int_small:
  "toString_int 0 = ''0''" "toString_int 1 = ''1''" "toString_int 2 = ''2''"
  by (simp_all add: toString_int_def toString_small)

lemma mem_manager_active: "activeDev mem_manager = 0"
  by (simp add: mem_manager_def)

lemma getDeviceInfo_line:
  assumes "getDeviceProp m p = Inr d"
  shows "getDeviceInfo m p =
     Inr ((if getActiveDeviceId m = p then ''['' @ toString_int p @ '']''
           else ''-'' @ toString_int p @ ''-'')
          @ '' '' @ name d @ '', ''
          @ toString_nat ((totalGlobalMem d + 1048575) div 1048576) @ '' MB, CUDA Compute ''
          @ toString_int (major d) @ ''.'' @ toString_int (minor d) @ [CHR 0x0A])"
proof -
  have "totalGlobalMem d div (1024 * 1024)
          + (if totalGlobalMem d mod (1024 * 1024) \<noteq> 0 then 1 else 0)
        = (totalGlobalMem d + 1048575) div 1048576"
    by (rule megabytes_round_up)
  with assms show ?thesis
    by (simp add: getDeviceInfo_def Let_def)
qed

lemma mem_lines:
  "getDeviceInfo mem_manager 0 = Inr (''[0] exact, 3 MB, CUDA Compute 2.1'' @ [CHR 0x0A])"
  "getDeviceInfo mem_manager 1 = Inr (''-1- over, 4 MB, CUDA Compute 2.1'' @ [CHR 0x0A])"
proof -
  have p0: "getDeviceProp mem_manager 0 = Inr (mem_props ! 0)"
    by (simp add: getDeviceProp_def vector_at_def mem_devices_eval)
  have p1: "getDeviceProp mem_manager 1 = Inr (mem_props ! 1)"
    by (simp add: getDeviceProp_def vector_at_def mem_devices_eval)
  show "getDeviceInfo mem_manager 0 = Inr (''[0] exact, 3 MB, CUDA Compute 2.1'' @ [CHR 0x0A])"
    by (simp add: getDeviceInfo_line [OF p0] getActiveDeviceId_def mem_manager_active
        mem_props_def toString_small toString_int_small)
  show "getDeviceInfo mem_manager 1 = Inr (''-1- over, 4 MB, CUDA Compute 2.1'' @ [CHR 0x0A])"
    by (simp add: getDeviceInfo_line [OF p1] getActiveDeviceId_def mem_manager_active
        mem_props_def toString_small toString_int_small)
qed

text \<open>
  C7: the line that \<open>getDeviceInfo\<close> prints for a position is determined by the position,
  the capability descriptor found there and the active flag: two registries that agree on
  these give the same text. The memory figure is the least number of units of 1048576 bytes
  that holds the total memory, so 3145728 bytes print as "3 MB" and 3145729 bytes as "4 MB".
\<close>

theorem getDeviceInfo_deterministic_rounds_up:
  "(getDeviceProp m1 p = Inr d \<and> getDeviceProp m2 p = Inr d
      \<and> (getActiveDeviceId m1 = p \<longleftrightarrow> getActiveDeviceId m2 = p)
      \<longrightarrow> getDeviceInfo m1 p = getDeviceInfo m2 p)
   \<and> (getDeviceProp m1 p = Inr d \<longrightarrow>
        getDeviceInfo m1 p =
          Inr ((if getActiveDeviceId m1 = p then ''['' @ toString_int p @ '']''
                else ''-'' @ toString_int p @ ''-'')
               @ '' '' @ name d @ '', ''
               @ toString_nat ((totalGlobalMem d + 1048575) div 1048576)
               @ '' MB, CUDA Compute ''
               @ toString_int (major d) @ ''.'' @ toString_int (minor d) @ [CHR 0x0A]))
   \<and> (\<forall>k. totalGlobalMem d \<le> k * 1048576 \<longleftrightarrow> (totalGlobalMem d + 1048575) div 1048576 \<le> k)
   \<and> getDeviceInfo mem_manager 0 = Inr (''[0] exact, 3 MB, CUDA Compute 2.1'' @ [CHR 0x0A])
   \<and> getDeviceInfo mem_manager 1 = Inr (''-1- over, 4 MB, CUDA Compute 2.1'' @ [CHR 0x0A])"
proof (intro conjI impI allI)
  assume "getDeviceProp m1 p = Inr d \<and> getDeviceProp m2 p = Inr d
      \<and> (getActiveDeviceId m1 = p \<longleftrightarrow> getActiveDeviceId m2 = p)"
  then show "getDeviceInfo m1 p = getDeviceInfo m2 p"
    by (simp add: getDeviceInfo_line)
next
  assume "getDeviceProp m1 p = Inr d"
  then show "getDeviceInfo m1 p =
          Inr ((if getActiveDeviceId m1 = p then ''['' @ toString_int p @ '']''
                else ''-'' @ toString_int p @ ''-'')
               @ '' '' @ name d @ '', ''
               @ toString_nat ((totalGlobalMem d + 1048575) div 1048576)
               @ '' MB, CUDA Compute ''
               @ toString_int (major d) @ ''.'' @ toString_int (minor d) @ [CHR 0x0A])"
    by (rule getDeviceInfo_line)
next
  fix k
  show "totalGlobalMem d \<le> k * 1048576 \<longleftrightarrow> (totalGlobalMem d + 1048575) div 1048576 \<le> k"
    by (rule megabytes_least)
next
  show "getDeviceInfo mem_manager 0 = Inr (''[0] exact, 3 MB, CUDA Compute 2.1'' @ [CHR 0x0A])"
    by (rule mem_lines)
next
  show "getDeviceInfo mem_manager 1 = Inr (''-1- over, 4 MB, CUDA Compute 2.1'' @ [CHR 0x0A])"
    by (rule mem_lines)
qed

theorem getDeviceInfo_deterministic_rounds_up_witness:
  "getDeviceProp mem_manager 1 = Inr (mem_props ! 1)
   \<and> getDeviceProp (mem_manager\<lparr>nDevices := 7\<rparr>) 1 = Inr (mem_props ! 1)
   \<and> (getActiveDeviceId mem_manager = 1 \<longleftrightarrow> getActiveDeviceId (mem_manager\<lparr>nDevices := 7\<rparr>) = 1)
   \<and> getDeviceInfo mem_manager 1 = getDeviceInfo (mem_manager\<lparr>nDevices := 7\<rparr>) 1
   \<and> totalGlobalMem (mem_props ! 1) = 3145729
   \<and> getDeviceInfo mem_manager 1 = Inr (''-1- over, 4 MB, CUDA Compute 2.1'' @ [CHR 0x0A])"
proof -
  have p1: "getDeviceProp mem_manager 1 = Inr (mem_props ! 1)"
    by (simp add: getDeviceProp_def vector_at_def mem_devices_eval)
  have p2: "getDeviceProp (mem_manager\<lparr>nDevices := 7\<rparr>) 1 = Inr (mem_props ! 1)"
    by (simp add: getDeviceProp_def vector_at_def mem_devices_eval)
  have a: "getActiveDeviceId mem_manager = 1 \<longleftrightarrow> getActiveDeviceId (mem_manager\<lparr>nDevices := 7\<rparr>) = 1"
    by (simp add: getActiveDeviceId_def)
  have t: "totalGlobalMem (mem_props ! 1) = 3145729"
    by (simp add: mem_props_def)
  from getDeviceInfo_deterministic_rounds_up
         [of mem_manager 1 "mem_props ! 1" "mem_manager\<lparr>nDevices := 7\<rparr>"] p1 p2 a
  have e: "getDeviceInfo mem_manager 1 = getDeviceInfo (mem_manager\<lparr>nDevices := 7\<rparr>) 1"
    and l: "getDeviceInfo mem_manager 1 = Inr (''-1- over, 4 MB, CUDA Compute 2.1'' @ [CHR 0x0A])"
    by blast+
  from p1 p2 a t e l show ?thesis by blast
qed

subsection \<open>Revisions outside the table\<close>

lemma compute2cores_unlisted_code:
  "int32 (int32 (mj * 16) + mn) \<notin> set listed_codes \<Longrightarrow> compute2cores mj mn = 0"
  by (simp add: compute2cores_def gpus_def listed_codes_def)

lemma packed_code_in_range:
  assumes "0 \<le> mj" "mj < 134217728" "0 \<le> mn" "mn < 16"
  shows "int32 (int32 (mj * 16) + mn) = mj * 16 + mn"
proof -
  from assms have "int32 (mj * 16) = mj * 16"
    by (intro int32_id) simp_all
  moreover from assms have "int32 (mj * 16 + mn) = mj * 16 + mn"
    by (intro int32_id) simp_all
  ultimately show ?thesis by simp
qed

lemma listed_code_decodes:
  assumes "c \<in> set listed_codes"
  shows "(c div 16, c mod 16) \<in> set listed_revisions"
proof -
  from assms have "c = 16 \<or> c = 17 \<or> c = 18 \<or> c = 19 \<or> c = 32 \<or> c = 33 \<or> c = 48 \<or> c = 53 \<or> c = 80"
    by (simp add: listed_codes_def)
  then show ?thesis
    by (elim disjE) (simp_all add: listed_revisions_def)
qed

lemma compute2cores_unlisted_revision:
  assumes "0 \<le> mj" "mj < 134217728" "0 \<le> mn" "mn < 16" "(mj, mn) \<notin> set listed_revisions"
  shows "compute2cores mj mn = 0"
proof (rule compute2cores_unlisted_code)
  have "(mj * 16 + mn) div 16 = mj" and "(mj * 16 + mn) mod 16 = mn"
    using assms(3,4) by simp_all
  with listed_code_decodes [of "mj * 16 + mn"] assms(5)
  have "mj * 16 + mn \<notin> set listed_codes"
    by metis
  then show "int32 (int32 (mj * 16) + mn) \<notin> set listed_codes"
    by (simp add: packed_code_in_range assms)
qed


end
